theory Spec2Isabelle
  imports Main "HOL-Library.AList"
begin

section \<open>JSON values and the JavaScript operators the handlers use\<close>

text \<open>
  Frames on a WebSocket and payloads on a Redis channel are JSON texts. The handlers of
  \<^verbatim>\<open>index.js\<close> only ever look at the value \<^verbatim>\<open>JSON.parse\<close> returns, so a frame is
  modelled by that result: \<open>None\<close> when \<^verbatim>\<open>JSON.parse\<close> throws, \<open>Some v\<close> otherwise. An object
  is the list of its own properties in creation order. A number is an integer here: the
  handlers only test a number for being zero.
\<close>

datatype json =
    JNull
  | JBool bool
  | JNum int
  | JStr string
  | JArr "json list"
  | JObj "(string \<times> json) list"

datatype js_error = SyntaxError | TypeError | RedisError | PersistenceError

text \<open>
  \<^verbatim>\<open>v.k\<close> for the keys the handlers read (\<^verbatim>\<open>type\<close>, \<^verbatim>\<open>messageType\<close>, \<^verbatim>\<open>text\<close>, \<^verbatim>\<open>room\<close>):
  reading a property of \<^verbatim>\<open>null\<close> throws a TypeError, an object yields its own property or
  \<^verbatim>\<open>undefined\<close> (\<open>None\<close>), and numbers, booleans, strings and arrays have no property of
  these names.
\<close>

fun get_prop :: "json \<Rightarrow> string \<Rightarrow> js_error + json option" where
  "get_prop JNull k = Inl TypeError"
| "get_prop (JObj kvs) k = Inr (map_of kvs k)"
| "get_prop v k = Inr None"

text \<open>JavaScript truthiness, and \<^verbatim>\<open>v || d\<close> with a default \<open>d\<close>.\<close>

fun truthy :: "json option \<Rightarrow> bool" where
  "truthy None = False"
| "truthy (Some JNull) = False"
| "truthy (Some (JBool b)) = b"
| "truthy (Some (JNum n)) = (n \<noteq> 0)"
| "truthy (Some (JStr s)) = (s \<noteq> [])"
| "truthy (Some (JArr vs)) = True"
| "truthy (Some (JObj kvs)) = True"

definition js_or :: "json option \<Rightarrow> json \<Rightarrow> json" where
  "js_or v d = (case v of None \<Rightarrow> d | Some x \<Rightarrow> if truthy (Some x) then x else d)"

text \<open>
  The own properties an object spread \<^verbatim>\<open>{...v}\<close> copies. The spread is only reached with
  an object (a value whose \<^verbatim>\<open>type\<close> is a string); the other cases are there for totality.
\<close>

fun own_props :: "json \<Rightarrow> (string \<times> json) list" where
  "own_props (JObj kvs) = kvs"
| "own_props v = []"

section \<open>The state of the server process and of its collaborators\<close>

type_synonym conn = nat

datatype ready_state = CONNECTING | OPEN | CLOSING | CLOSED

record meta =
  m_id :: string
  m_room :: string
  m_username :: string

text \<open>The document handed to \<^verbatim>\<open>Message.create\<close> by the chat branch.\<close>

record doc =
  d_room :: string
  d_user :: string
  d_text :: json
  d_ts :: int
  d_messageType :: json

text \<open>
  \<^item> \<open>clients\<close>: the \<^verbatim>\<open>Map\<close> from socket to session metadata, in insertion order;
  \<^item> \<open>subscribedRooms\<close>: the \<^verbatim>\<open>Set\<close> of channels the process believes it is subscribed to;
  \<^item> \<open>sub_channels\<close>: every \<^verbatim>\<open>sub.subscribe\<close> call issued, in order;
  \<^item> \<open>redis_sets\<close>: the Redis sets behind \<^verbatim>\<open>cli\<close> (\<^verbatim>\<open>SMEMBERS\<close> gives no order; the model
    lists the members in the order they were added);
  \<^item> \<open>bus\<close>: every \<^verbatim>\<open>pub.publish\<close> call that went through, as (channel, payload);
  \<^item> \<open>history\<close>: the documents \<^verbatim>\<open>Message.create\<close> stored;
  \<^item> \<open>readyState\<close>, \<open>sent\<close>: the state of each socket and the frames handed to open sockets;
  \<^item> \<open>listeners\<close>: the \<^verbatim>\<open>room\<close> and \<^verbatim>\<open>username\<close> captured by the message and close handlers
    of a socket, once they are attached;
  \<^item> \<open>console\<close>: the \<^verbatim>\<open>console.error\<close> lines.
\<close>

record server =
  clients :: "(conn \<times> meta) list"
  subscribedRooms :: "string set"
  sub_channels :: "string list"
  redis_sets :: "string \<Rightarrow> string list"
  bus :: "(string \<times> json) list"
  history :: "doc list"
  readyState :: "conn \<Rightarrow> ready_state"
  sent :: "(conn \<times> json) list"
  listeners :: "conn \<Rightarrow> (string \<times> string) option"
  console :: "string list"

text \<open>
  What the outside world decides during one run of a handler: whether each of the three
  Redis connections answers, whether the history store accepts a document (it rejects when
  MongoDB is unreachable or when the schema of \<^verbatim>\<open>models/message.js\<close> fails to validate),
  what \<^verbatim>\<open>jwt.verify\<close> makes of a token (the \<^verbatim>\<open>username\<close> of the payload, \<open>None\<close> when it
  throws), the next \<^verbatim>\<open>uuidv4()\<close> and \<^verbatim>\<open>Date.now()\<close>.
\<close>

record env =
  cli_up :: bool
  pub_up :: bool
  sub_up :: bool
  db_accepts :: "doc \<Rightarrow> bool"
  jwt_verify :: "string \<Rightarrow> string option"
  uuid :: string
  now :: int

text \<open>The connection request: whether \<^verbatim>\<open>new URL\<close> parses it, and its two query parameters.\<close>

record request =
  url_parses :: bool
  q_token :: "string option"
  q_room :: "string option"

definition init :: server where
  "init = \<lparr> clients = [], subscribedRooms = {}, sub_channels = [],
            redis_sets = (\<lambda>k. []), bus = [], history = [],
            readyState = (\<lambda>ws. CONNECTING), sent = [],
            listeners = (\<lambda>ws. None), console = [] \<rparr>"

section \<open>Asynchronous code: state passing with exceptions\<close>

text \<open>
  An \<^verbatim>\<open>async\<close> body is a function from the state to an outcome and the state reached: \<open>Inl\<close>
  is the exception it threw (the effects made before the throw stay), \<open>Inr\<close> its value.
  Each handler runs to completion before the next event is taken.
\<close>

type_synonym 'a io = "server \<Rightarrow> (js_error + 'a) \<times> server"

definition io_unit :: "'a \<Rightarrow> 'a io" where
  "io_unit a = (\<lambda>s. (Inr a, s))"

definition io_throw :: "js_error \<Rightarrow> 'a io" where
  "io_throw err = (\<lambda>s. (Inl err, s))"

definition io_bind :: "'a io \<Rightarrow> ('a \<Rightarrow> 'b io) \<Rightarrow> 'b io" where
  "io_bind m f = (\<lambda>s. case m s of (Inl err, s') \<Rightarrow> (Inl err, s') | (Inr a, s') \<Rightarrow> f a s')"

definition io_of :: "js_error + 'a \<Rightarrow> 'a io" where
  "io_of r = (case r of Inl err \<Rightarrow> io_throw err | Inr a \<Rightarrow> io_unit a)"

definition try_catch :: "unit io \<Rightarrow> (js_error \<Rightarrow> unit io) \<Rightarrow> unit io" where
  "try_catch m h = (\<lambda>s. case m s of (Inl err, s') \<Rightarrow> h err s' | (Inr a, s') \<Rightarrow> (Inr a, s'))"

subsection \<open>The library calls\<close>

definition console_error :: "string \<Rightarrow> unit io" where
  "console_error line = (\<lambda>s. (Inr (), s\<lparr>console := console s @ [line]\<rparr>))"

text \<open>
  \<^verbatim>\<open>ws.send\<close>: the frame goes out when the socket is open and nowhere otherwise. (Every
  send of \<^verbatim>\<open>index.js\<close> is either guarded by \<^verbatim>\<open>readyState === OPEN\<close> or made by a handler of
  a socket that has just connected or has just delivered a frame.)
\<close>

definition ws_send :: "conn \<Rightarrow> json \<Rightarrow> unit io" where
  "ws_send ws frame = (\<lambda>s.
     if readyState s ws = OPEN then (Inr (), s\<lparr>sent := sent s @ [(ws, frame)]\<rparr>)
     else (Inr (), s))"

text \<open>\<^verbatim>\<open>ws.close\<close>: starts the closing handshake of an open socket.\<close>

definition ws_close :: "conn \<Rightarrow> unit io" where
  "ws_close ws = (\<lambda>s.
     if readyState s ws = OPEN then (Inr (), s\<lparr>readyState := (readyState s)(ws := CLOSING)\<rparr>)
     else (Inr (), s))"

definition cli_sadd :: "env \<Rightarrow> string \<Rightarrow> string \<Rightarrow> unit io" where
  "cli_sadd e k member = (\<lambda>s.
     if cli_up e
     then (Inr (), s\<lparr>redis_sets := (redis_sets s)
              (k := (if member \<in> set (redis_sets s k) then redis_sets s k
                     else redis_sets s k @ [member]))\<rparr>)
     else (Inl RedisError, s))"

definition cli_srem :: "env \<Rightarrow> string \<Rightarrow> string \<Rightarrow> unit io" where
  "cli_srem e k member = (\<lambda>s.
     if cli_up e
     then (Inr (), s\<lparr>redis_sets := (redis_sets s)(k := removeAll member (redis_sets s k))\<rparr>)
     else (Inl RedisError, s))"

definition cli_smembers :: "env \<Rightarrow> string \<Rightarrow> string list io" where
  "cli_smembers e k = (\<lambda>s.
     if cli_up e then (Inr (redis_sets s k), s) else (Inl RedisError, s))"

definition pub_publish :: "env \<Rightarrow> string \<Rightarrow> json \<Rightarrow> unit io" where
  "pub_publish e channel payload = (\<lambda>s.
     if pub_up e then (Inr (), s\<lparr>bus := bus s @ [(channel, payload)]\<rparr>)
     else (Inl RedisError, s))"

definition sub_subscribe :: "env \<Rightarrow> string \<Rightarrow> unit io" where
  "sub_subscribe e channel = (\<lambda>s.
     if sub_up e then (Inr (), s\<lparr>sub_channels := sub_channels s @ [channel]\<rparr>)
     else (Inl RedisError, s))"

definition Message_create :: "env \<Rightarrow> doc \<Rightarrow> unit io" where
  "Message_create e d = (\<lambda>s.
     if db_accepts e d then (Inr (), s\<lparr>history := history s @ [d]\<rparr>)
     else (Inl PersistenceError, s))"

section \<open>The helpers of index.js\<close>

definition redisRoomChannel :: "string \<Rightarrow> string" where
  "redisRoomChannel room = ''room:'' @ room @ '':channel''"

definition redisRoomUsersKey :: "string \<Rightarrow> string" where
  "redisRoomUsersKey room = ''room:'' @ room @ '':users''"

definition subscribedRooms_add :: "string \<Rightarrow> unit io" where
  "subscribedRooms_add channel = (\<lambda>s. (Inr (), s\<lparr>subscribedRooms := insert channel (subscribedRooms s)\<rparr>))"

definition ensureSubscribed :: "env \<Rightarrow> string \<Rightarrow> unit io" where
  "ensureSubscribed e room =
     (let channel = redisRoomChannel room in
      (\<lambda>s. if channel \<notin> subscribedRooms s
            then io_bind (sub_subscribe e channel) (\<lambda>_. subscribedRooms_add channel) s
            else (Inr (), s)))"

definition presence_update :: "string \<Rightarrow> string list \<Rightarrow> json" where
  "presence_update room users =
     JObj [(''type'', JStr ''presence''), (''action'', JStr ''update''),
           (''room'', JStr room), (''users'', JArr (map JStr users))]"

definition addUserToRoom :: "env \<Rightarrow> string \<Rightarrow> string \<Rightarrow> unit io" where
  "addUserToRoom e room username =
     io_bind (cli_sadd e (redisRoomUsersKey room) username) (\<lambda>_.
     io_bind (cli_smembers e (redisRoomUsersKey room)) (\<lambda>users.
     pub_publish e (redisRoomChannel room) (presence_update room users)))"

definition removeUserFromRoom :: "env \<Rightarrow> string \<Rightarrow> string \<Rightarrow> unit io" where
  "removeUserFromRoom e room username =
     io_bind (cli_srem e (redisRoomUsersKey room) username) (\<lambda>_.
     io_bind (cli_smembers e (redisRoomUsersKey room)) (\<lambda>users.
     pub_publish e (redisRoomChannel room) (presence_update room users)))"

section \<open>Fan-out of a bus message: sub.on("message")\<close>

text \<open>
  The loop over \<^verbatim>\<open>clients.entries()\<close>. \<open>room\<close> is \<^verbatim>\<open>msg.room\<close>, which may be undefined or
  not a string; \<^verbatim>\<open>meta.room === room\<close> holds only for the string \<^verbatim>\<open>meta.room\<close> itself.
\<close>

fun forward :: "json \<Rightarrow> json option \<Rightarrow> (conn \<times> meta) list \<Rightarrow> unit io" where
  "forward msg room [] = io_unit ()"
| "forward msg room ((ws, m) # rest) =
     io_bind (\<lambda>s. if room = Some (JStr (m_room m)) \<and> readyState s ws = OPEN
                   then ws_send ws msg s else (Inr (), s))
             (\<lambda>_. forward msg room rest)"

text \<open>
  The handler has no \<^verbatim>\<open>try\<close>: a payload that does not parse, or that parses to \<^verbatim>\<open>null\<close>,
  throws out of it.
\<close>

definition sub_on_message :: "json option \<Rightarrow> unit io" where
  "sub_on_message message =
     (case message of
        None \<Rightarrow> io_throw SyntaxError
      | Some msg \<Rightarrow>
          io_bind (io_of (get_prop msg ''room'')) (\<lambda>room s. forward msg room (clients s) s))"

section \<open>The connection handler: wss.on("connection")\<close>

definition clients_set :: "conn \<Rightarrow> meta \<Rightarrow> unit io" where
  "clients_set ws m = (\<lambda>s. (Inr (), s\<lparr>clients := AList.update ws m (clients s)\<rparr>))"

definition clients_delete :: "conn \<Rightarrow> unit io" where
  "clients_delete ws = (\<lambda>s. (Inr (), s\<lparr>clients := AList.delete ws (clients s)\<rparr>))"

definition attach_listeners :: "conn \<Rightarrow> string \<Rightarrow> string \<Rightarrow> unit io" where
  "attach_listeners ws room username =
     (\<lambda>s. (Inr (), s\<lparr>listeners := (listeners s)(ws \<mapsto> (room, username))\<rparr>))"

definition error_frame :: "string \<Rightarrow> json" where
  "error_frame text = JObj [(''type'', JStr ''error''), (''message'', JStr text)]"

definition welcome_frame :: "string \<Rightarrow> string \<Rightarrow> string list \<Rightarrow> int \<Rightarrow> json" where
  "welcome_frame sid room users ts =
     JObj [(''type'', JStr ''system''), (''subtype'', JStr ''welcome''), (''id'', JStr sid),
           (''room'', JStr room), (''users'', JArr (map JStr users)), (''ts'', JNum ts)]"

text \<open>The two authentication failures: an error frame, then \<^verbatim>\<open>return ws.close()\<close>.\<close>

definition reject :: "conn \<Rightarrow> string \<Rightarrow> unit io" where
  "reject ws text = io_bind (ws_send ws (error_frame text)) (\<lambda>_. ws_close ws)"

definition on_connection :: "env \<Rightarrow> conn \<Rightarrow> request \<Rightarrow> unit io" where
  "on_connection e ws req =
     try_catch
       (if \<not> url_parses req then io_throw TypeError
        else
          let room = (case q_room req of
                        None \<Rightarrow> ''global''
                      | Some r \<Rightarrow> if r = [] then ''global'' else r)
          in
          (case q_token req of
             None \<Rightarrow> reject ws ''Token missing''
           | Some token \<Rightarrow>
               if token = [] then reject ws ''Token missing''
               else
                 (case jwt_verify e token of
                    None \<Rightarrow> reject ws ''Invalid token''
                  | Some username \<Rightarrow>
                      let sid = uuid e in
                      io_bind (clients_set ws \<lparr>m_id = sid, m_room = room, m_username = username\<rparr>) (\<lambda>_.
                      io_bind (ensureSubscribed e room) (\<lambda>_.
                      io_bind (addUserToRoom e room username) (\<lambda>_.
                      io_bind (cli_smembers e (redisRoomUsersKey room)) (\<lambda>currentUsers.
                      io_bind (ws_send ws (welcome_frame sid room currentUsers (now e))) (\<lambda>_.
                      attach_listeners ws room username))))))))
       (\<lambda>err. console_error ''WS connection error:'')"

section \<open>The per-socket handlers: ws.on("message") and ws.on("close")\<close>

definition is_signal :: "json option \<Rightarrow> bool" where
  "is_signal ty \<longleftrightarrow>
     ty = Some (JStr ''webrtc-offer'') \<or> ty = Some (JStr ''webrtc-answer'')
     \<or> ty = Some (JStr ''webrtc-ice'')"

definition signal :: "json \<Rightarrow> string \<Rightarrow> string \<Rightarrow> json" where
  "signal parsed room username =
     JObj (AList.update ''from'' (JStr username)
            (AList.update ''room'' (JStr room) (own_props parsed)))"

definition chatMessage :: "env \<Rightarrow> string \<Rightarrow> string \<Rightarrow> json option \<Rightarrow> json option \<Rightarrow> json" where
  "chatMessage e room username messageType text =
     JObj [(''id'', JStr (uuid e)), (''type'', JStr ''message''),
           (''messageType'', js_or messageType (JStr ''text'')),
           (''room'', JStr room), (''user'', JStr username),
           (''text'', js_or text (JStr [])), (''ts'', JNum (now e))]"

definition chat_doc :: "env \<Rightarrow> string \<Rightarrow> string \<Rightarrow> json option \<Rightarrow> json option \<Rightarrow> doc" where
  "chat_doc e room username messageType text =
     \<lparr> d_room = room, d_user = username, d_text = js_or text (JStr []),
       d_ts = now e, d_messageType = js_or messageType (JStr ''text'') \<rparr>"

definition pong :: "int \<Rightarrow> json" where
  "pong ts = JObj [(''type'', JStr ''pong''), (''ts'', JNum ts)]"

definition on_message :: "env \<Rightarrow> conn \<Rightarrow> string \<Rightarrow> string \<Rightarrow> json option \<Rightarrow> unit io" where
  "on_message e ws room username data =
     try_catch
       (case data of
          None \<Rightarrow> io_throw SyntaxError
        | Some parsed \<Rightarrow>
            io_bind (io_of (get_prop parsed ''type'')) (\<lambda>ty.
              if is_signal ty
              then pub_publish e (redisRoomChannel room) (signal parsed room username)
              else
                io_bind
                  (if ty = Some (JStr ''message'')
                   then
                     io_bind (io_of (get_prop parsed ''messageType'')) (\<lambda>messageType.
                     io_bind (io_of (get_prop parsed ''text'')) (\<lambda>text.
                     io_bind (Message_create e (chat_doc e room username messageType text)) (\<lambda>_.
                     pub_publish e (redisRoomChannel room)
                       (chatMessage e room username messageType text))))
                   else io_unit ())
                  (\<lambda>_. if ty = Some (JStr ''ping'') then ws_send ws (pong (now e))
                        else io_unit ())))
       (\<lambda>err. console_error ''message error:'')"

text \<open>The close handler has no \<^verbatim>\<open>try\<close>: a Redis failure rejects the handler's promise.\<close>

definition on_close :: "env \<Rightarrow> conn \<Rightarrow> string \<Rightarrow> string \<Rightarrow> unit io" where
  "on_close e ws room username =
     io_bind (clients_delete ws) (\<lambda>_. removeUserFromRoom e room username)"

section \<open>Runs of the process\<close>

text \<open>
  The events the process reacts to. A connection event brings a socket that did not exist
  before and is open; frames arrive on open sockets that have a message handler; a socket
  closes once; \<open>Delivery\<close> is the \<^verbatim>\<open>sub\<close> connection handing over a payload. A run ends with
  the first exception that no handler catches.
\<close>

text \<open>
  \<open>step\<close> runs the handler of an event to its end: every reply the handler awaits arrives
  before the next event does. That is one schedule of the event loop, the one in which
  nothing comes between the segments of a handler. The schedules in which handlers overlap
  at their \<^verbatim>\<open>await\<close>s, in one process and across processes, are the runs of \<open>run_world\<close>
  below.
\<close>

datatype event =
    Connection env conn request
  | Frame env conn "json option"
  | Close env conn
  | Delivery "json option"

fun step :: "event \<Rightarrow> unit io" where
  "step (Connection e ws req) =
     (\<lambda>s. if readyState s ws = CONNECTING
           then on_connection e ws req (s\<lparr>readyState := (readyState s)(ws := OPEN)\<rparr>)
           else (Inr (), s))"
| "step (Frame e ws data) =
     (\<lambda>s. case listeners s ws of
             None \<Rightarrow> (Inr (), s)
           | Some (room, username) \<Rightarrow>
               if readyState s ws = OPEN then on_message e ws room username data s
               else (Inr (), s))"
| "step (Close e ws) =
     (\<lambda>s. if readyState s ws = CONNECTING \<or> readyState s ws = CLOSED then (Inr (), s)
           else case listeners s ws of
                  None \<Rightarrow> (Inr (), s\<lparr>readyState := (readyState s)(ws := CLOSED)\<rparr>)
                | Some (room, username) \<Rightarrow>
                    on_close e ws room username (s\<lparr>readyState := (readyState s)(ws := CLOSED)\<rparr>))"
| "step (Delivery message) = sub_on_message message"

fun run :: "event list \<Rightarrow> server \<Rightarrow> js_error + server" where
  "run [] s = Inr s"
| "run (ev # evs) s =
     (case step ev s of (Inl err, s') \<Rightarrow> Inl err | (Inr u, s') \<Rightarrow> run evs s')"

section \<open>Membership, sessions and deliveries\<close>

text \<open>The membership set of a room, as stored in Redis.\<close>

definition members :: "server \<Rightarrow> string \<Rightarrow> string set" where
  "members s room = set (redis_sets s (redisRoomUsersKey room))"


subsection \<open>Invariants of a run\<close>

text \<open>A property of the state that a computation keeps.\<close>

definition preserves :: "(server \<Rightarrow> bool) \<Rightarrow> 'a io \<Rightarrow> bool" where
  "preserves P m \<longleftrightarrow> (\<forall>s. P s \<longrightarrow> P (snd (m s)))"

section \<open>Handlers between their awaits\<close>

text \<open>
  An \<^verbatim>\<open>async\<close> handler runs until its next \<^verbatim>\<open>await\<close> and is resumed when the awaited reply
  arrives; in between, the event loop runs whatever else is ready. A task is a suspended
  handler: the \<^verbatim>\<open>await\<close> it stands at, the variables it still needs, and the outcome of the
  command it awaits (a Redis or MongoDB command takes effect when it is issued; its reply,
  or its rejection, comes back later).
\<close>

type_synonym pid = nat

datatype task =
    Conn_subscribe conn meta "js_error + unit"
  | Conn_ensured conn meta
  | Conn_sadd conn meta "js_error + unit"
  | Conn_smembers conn meta "js_error + string list"
  | Conn_publish conn meta "js_error + unit"
  | Conn_added conn meta
  | Conn_current conn meta "js_error + string list"
  | Msg_signal "js_error + unit"
  | Msg_create string json "js_error + unit"
  | Msg_publish "js_error + unit"
  | Close_srem string "js_error + unit"
  | Close_smembers string "js_error + string list"
  | Close_publish "js_error + unit"

text \<open>
  A segment of a handler: it ends suspended at an \<^verbatim>\<open>await\<close> (\<open>Some\<close> task), finished
  (\<open>None\<close>), or with an exception that nothing catches (\<open>Inl\<close>).
\<close>

definition suspend :: "'r io \<Rightarrow> (js_error + 'r \<Rightarrow> task) \<Rightarrow> task option io" where
  "suspend command k = (\<lambda>s. case command s of (r, s') \<Rightarrow> (Inr (Some (k r)), s'))"

definition finish :: "unit io \<Rightarrow> task option io" where
  "finish m = io_bind m (\<lambda>_. io_unit None)"

text \<open>The \<^verbatim>\<open>catch\<close> blocks of the connection and message handlers.\<close>

definition connection_catch :: "task option io" where
  "connection_catch = finish (console_error ''WS connection error:'')"

definition message_catch :: "task option io" where
  "message_catch = finish (console_error ''message error:'')"

text \<open>
  \<^verbatim>\<open>wss.on("connection")\<close> up to its first \<^verbatim>\<open>await\<close>: the session is registered, and
  \<open>ensureSubscribed\<close> either issues \<^verbatim>\<open>sub.subscribe\<close> or returns at once.
\<close>

definition connection_begin :: "env \<Rightarrow> conn \<Rightarrow> request \<Rightarrow> task option io" where
  "connection_begin e ws req =
     (if \<not> url_parses req then connection_catch
      else
        let room = (case q_room req of
                      None \<Rightarrow> ''global''
                    | Some r \<Rightarrow> if r = [] then ''global'' else r)
        in
        (case q_token req of
           None \<Rightarrow> finish (reject ws ''Token missing'')
         | Some token \<Rightarrow>
             if token = [] then finish (reject ws ''Token missing'')
             else
               (case jwt_verify e token of
                  None \<Rightarrow> finish (reject ws ''Invalid token'')
                | Some username \<Rightarrow>
                    let m = \<lparr>m_id = uuid e, m_room = room, m_username = username\<rparr> in
                    io_bind (clients_set ws m) (\<lambda>_ s.
                      if redisRoomChannel room \<notin> subscribedRooms s
                      then suspend (sub_subscribe e (redisRoomChannel room)) (Conn_subscribe ws m) s
                      else (Inr (Some (Conn_ensured ws m)), s)))))"

text \<open>\<^verbatim>\<open>ws.on("message")\<close> up to its first \<^verbatim>\<open>await\<close>.\<close>

definition message_begin ::
  "env \<Rightarrow> conn \<Rightarrow> string \<Rightarrow> string \<Rightarrow> json option \<Rightarrow> task option io" where
  "message_begin e ws room username data =
     (case data of
        None \<Rightarrow> message_catch
      | Some parsed \<Rightarrow>
          (case get_prop parsed ''type'' of
             Inl err \<Rightarrow> message_catch
           | Inr ty \<Rightarrow>
               if is_signal ty
               then suspend (pub_publish e (redisRoomChannel room) (signal parsed room username))
                      Msg_signal
               else if ty = Some (JStr ''message'')
               then
                 (case get_prop parsed ''messageType'' of
                    Inl err \<Rightarrow> message_catch
                  | Inr messageType \<Rightarrow>
                      (case get_prop parsed ''text'' of
                         Inl err \<Rightarrow> message_catch
                       | Inr text \<Rightarrow>
                           suspend (Message_create e (chat_doc e room username messageType text))
                             (Msg_create room (chatMessage e room username messageType text))))
               else if ty = Some (JStr ''ping'') then finish (ws_send ws (pong (now e)))
               else io_unit None))"

text \<open>\<^verbatim>\<open>ws.on("close")\<close> up to its first \<^verbatim>\<open>await\<close>.\<close>

definition close_begin :: "env \<Rightarrow> conn \<Rightarrow> string \<Rightarrow> string \<Rightarrow> task option io" where
  "close_begin e ws room username =
     io_bind (clients_delete ws) (\<lambda>_.
       suspend (cli_srem e (redisRoomUsersKey room) username) (Close_srem room))"

text \<open>
  The segment a task runs when it is resumed. A rejected command throws at its \<^verbatim>\<open>await\<close>:
  into the \<^verbatim>\<open>catch\<close> of the connection and message handlers, out of the close handler.
\<close>

fun resume :: "env \<Rightarrow> task \<Rightarrow> task option io" where
  "resume e (Conn_subscribe ws m r) =
     (case r of
        Inl err \<Rightarrow> connection_catch
      | Inr u \<Rightarrow> io_bind (subscribedRooms_add (redisRoomChannel (m_room m)))
                  (\<lambda>_. io_unit (Some (Conn_ensured ws m))))"
| "resume e (Conn_ensured ws m) =
     suspend (cli_sadd e (redisRoomUsersKey (m_room m)) (m_username m)) (Conn_sadd ws m)"
| "resume e (Conn_sadd ws m r) =
     (case r of
        Inl err \<Rightarrow> connection_catch
      | Inr u \<Rightarrow> suspend (cli_smembers e (redisRoomUsersKey (m_room m))) (Conn_smembers ws m))"
| "resume e (Conn_smembers ws m r) =
     (case r of
        Inl err \<Rightarrow> connection_catch
      | Inr users \<Rightarrow>
          suspend (pub_publish e (redisRoomChannel (m_room m)) (presence_update (m_room m) users))
            (Conn_publish ws m))"
| "resume e (Conn_publish ws m r) =
     (case r of
        Inl err \<Rightarrow> connection_catch
      | Inr u \<Rightarrow> io_unit (Some (Conn_added ws m)))"
| "resume e (Conn_added ws m) =
     suspend (cli_smembers e (redisRoomUsersKey (m_room m))) (Conn_current ws m)"
| "resume e (Conn_current ws m r) =
     (case r of
        Inl err \<Rightarrow> connection_catch
      | Inr currentUsers \<Rightarrow>
          finish (io_bind (ws_send ws (welcome_frame (m_id m) (m_room m) currentUsers (now e)))
                   (\<lambda>_. attach_listeners ws (m_room m) (m_username m))))"
| "resume e (Msg_signal r) =
     (case r of Inl err \<Rightarrow> message_catch | Inr u \<Rightarrow> io_unit None)"
| "resume e (Msg_create room payload r) =
     (case r of
        Inl err \<Rightarrow> message_catch
      | Inr u \<Rightarrow> suspend (pub_publish e (redisRoomChannel room) payload) Msg_publish)"
| "resume e (Msg_publish r) =
     (case r of Inl err \<Rightarrow> message_catch | Inr u \<Rightarrow> io_unit None)"
| "resume e (Close_srem room r) =
     (case r of
        Inl err \<Rightarrow> io_throw err
      | Inr u \<Rightarrow> suspend (cli_smembers e (redisRoomUsersKey room)) (Close_smembers room))"
| "resume e (Close_smembers room r) =
     (case r of
        Inl err \<Rightarrow> io_throw err
      | Inr users \<Rightarrow>
          suspend (pub_publish e (redisRoomChannel room) (presence_update room users))
            Close_publish)"
| "resume e (Close_publish r) =
     (case r of Inl err \<Rightarrow> io_throw err | Inr u \<Rightarrow> io_unit None)"

text \<open>The first segment an event starts, with the same conditions on the socket as \<open>step\<close>.\<close>

fun arrive :: "event \<Rightarrow> task option io" where
  "arrive (Connection e ws req) =
     (\<lambda>s. if readyState s ws = CONNECTING
           then connection_begin e ws req (s\<lparr>readyState := (readyState s)(ws := OPEN)\<rparr>)
           else (Inr None, s))"
| "arrive (Frame e ws data) =
     (\<lambda>s. case listeners s ws of
             None \<Rightarrow> (Inr None, s)
           | Some (room, username) \<Rightarrow>
               if readyState s ws = OPEN then message_begin e ws room username data s
               else (Inr None, s))"
| "arrive (Close e ws) =
     (\<lambda>s. if readyState s ws = CONNECTING \<or> readyState s ws = CLOSED then (Inr None, s)
           else case listeners s ws of
                  None \<Rightarrow> (Inr None, s\<lparr>readyState := (readyState s)(ws := CLOSED)\<rparr>)
                | Some (room, username) \<Rightarrow>
                    close_begin e ws room username
                      (s\<lparr>readyState := (readyState s)(ws := CLOSED)\<rparr>))"
| "arrive (Delivery message) = finish (sub_on_message message)"

text \<open>
  A handler whose replies all arrive before anything else happens: its first segment, then
  its task resumed until it has finished.
\<close>

fun undisturbed :: "nat \<Rightarrow> env \<Rightarrow> task option io \<Rightarrow> unit io" where
  "undisturbed 0 e seg = io_bind seg (\<lambda>t. io_unit ())"
| "undisturbed (Suc n) e seg =
     io_bind seg (\<lambda>t. case t of None \<Rightarrow> io_unit () | Some k \<Rightarrow> undisturbed n e (resume e k))"

section \<open>Several gateway processes on one Redis\<close>

text \<open>
  What a gateway process keeps to itself: its registry, its subscriptions, its sockets and
  its console. The Redis sets, the channels and the history are shared by all processes.
\<close>

record gateway =
  g_clients :: "(conn \<times> meta) list"
  g_subscribedRooms :: "string set"
  g_sub_channels :: "string list"
  g_readyState :: "conn \<Rightarrow> ready_state"
  g_sent :: "(conn \<times> json) list"
  g_listeners :: "conn \<Rightarrow> (string \<times> string) option"
  g_console :: "string list"

text \<open>
  \<open>pending\<close> are the suspended handlers of all processes. \<open>sessions\<close> is not state of the
  program: it records, for the statements about sessions, which socket of which process
  authenticated for which room as which identity.
\<close>

record world =
  gateways :: "pid \<Rightarrow> gateway"
  w_redis_sets :: "string \<Rightarrow> string list"
  w_bus :: "(string \<times> json) list"
  w_history :: "doc list"
  pending :: "(pid \<times> task) list"
  sessions :: "(pid \<times> conn \<times> string \<times> string) list"

definition init_world :: world where
  "init_world =
     \<lparr> gateways = (\<lambda>p. \<lparr> g_clients = [], g_subscribedRooms = {}, g_sub_channels = [],
                          g_readyState = (\<lambda>ws. CONNECTING), g_sent = [],
                          g_listeners = (\<lambda>ws. None), g_console = [] \<rparr>),
       w_redis_sets = (\<lambda>k. []), w_bus = [], w_history = [], pending = [], sessions = [] \<rparr>"

text \<open>The state one process sees, and the world after that process has moved.\<close>

definition view :: "pid \<Rightarrow> world \<Rightarrow> server" where
  "view p w =
     \<lparr> clients = g_clients (gateways w p), subscribedRooms = g_subscribedRooms (gateways w p),
       sub_channels = g_sub_channels (gateways w p), redis_sets = w_redis_sets w,
       bus = w_bus w, history = w_history w, readyState = g_readyState (gateways w p),
       sent = g_sent (gateways w p), listeners = g_listeners (gateways w p),
       console = g_console (gateways w p) \<rparr>"

definition put :: "pid \<Rightarrow> server \<Rightarrow> world \<Rightarrow> world" where
  "put p s w =
     w\<lparr> gateways := (gateways w)
           (p := \<lparr> g_clients = clients s, g_subscribedRooms = subscribedRooms s,
                   g_sub_channels = sub_channels s, g_readyState = readyState s,
                   g_sent = sent s, g_listeners = listeners s, g_console = console s \<rparr>),
        w_redis_sets := redis_sets s, w_bus := bus s, w_history := history s \<rparr>"

text \<open>
  The session a connection request stands for, in the spec's words (4.4): the room of
  the request, \<open>global\<close> if absent, and the identity of the verified credential.
\<close>

definition credential :: "env \<Rightarrow> request \<Rightarrow> (string \<times> string) option" where
  "credential e req =
     (if \<not> url_parses req then None
      else case q_token req of
             None \<Rightarrow> None
           | Some token \<Rightarrow>
               if token = [] then None
               else map_option
                      (Pair (case q_room req of
                               None \<Rightarrow> ''global''
                             | Some r \<Rightarrow> if r = [] then ''global'' else r))
                      (jwt_verify e token))"

fun note_session :: "pid \<Rightarrow> event \<Rightarrow> world \<Rightarrow> world" where
  "note_session p (Connection e ws req) w =
     (if g_readyState (gateways w p) ws = CONNECTING
      then case credential e req of
             None \<Rightarrow> w
           | Some (room, username) \<Rightarrow> w\<lparr>sessions := sessions w @ [(p, ws, room, username)]\<rparr>
      else w)"
| "note_session p ev w = w"

text \<open>One segment of process \<open>p\<close>; the task it ends at joins the suspended handlers.\<close>

definition run_at :: "pid \<Rightarrow> task option io \<Rightarrow> world \<Rightarrow> (js_error + unit) \<times> world" where
  "run_at p seg w =
     (case seg (view p w) of
        (Inl err, s') \<Rightarrow> (Inl err, put p s' w)
      | (Inr None, s') \<Rightarrow> (Inr (), put p s' w)
      | (Inr (Some t), s') \<Rightarrow> (Inr (), (put p s' w)\<lparr>pending := pending w @ [(p, t)]\<rparr>))"

text \<open>
  What happens next: an event arrives at a process, or the reply some suspended handler
  waits for arrives. A run ends with the first exception that no handler catches.
\<close>

datatype occurrence = Arrive pid event | Resume nat env

fun occur :: "occurrence \<Rightarrow> world \<Rightarrow> (js_error + unit) \<times> world" where
  "occur (Arrive p ev) w = run_at p (arrive ev) (note_session p ev w)"
| "occur (Resume n e) w =
     (if n < length (pending w)
      then case pending w ! n of
             (p, t) \<Rightarrow>
               run_at p (resume e t)
                 (w\<lparr>pending := take n (pending w) @ drop (Suc n) (pending w)\<rparr>)
      else (Inr (), w))"

fun run_world :: "occurrence list \<Rightarrow> world \<Rightarrow> js_error + world" where
  "run_world [] w = Inr w"
| "run_world (oc # ocs) w =
     (case occur oc w of (Inl err, w') \<Rightarrow> Inl err | (Inr u, w') \<Rightarrow> run_world ocs w')"


section \<open>Sessions, membership and deliveries in the world\<close>

definition w_members :: "world \<Rightarrow> string \<Rightarrow> string set" where
  "w_members w room = set (w_redis_sets w (redisRoomUsersKey room))"

text \<open>
  The open sessions: the sessions whose socket is open. The identities with an open session
  in a room. No identity holds two open sessions in one room.
\<close>

definition open_sessions :: "world \<Rightarrow> (pid \<times> conn \<times> string \<times> string) list" where
  "open_sessions w =
     filter (\<lambda>(p, ws, room, username). g_readyState (gateways w p) ws = OPEN) (sessions w)"

definition open_identities :: "world \<Rightarrow> string \<Rightarrow> string set" where
  "open_identities w room =
     set (map (\<lambda>(p, ws, r, username). username)
           (filter (\<lambda>(p, ws, r, username). r = room) (open_sessions w)))"

definition single_session :: "world \<Rightarrow> bool" where
  "single_session w \<longleftrightarrow>
     distinct (map (\<lambda>(p, ws, room, username). (room, username)) (open_sessions w))"

definition membership_and_sessions :: "string \<Rightarrow> world \<Rightarrow> string set \<times> string set" where
  "membership_and_sessions room w = (w_members w room, open_identities w room)"

text \<open>
  The connection handlers that are suspended: whose, and whether they have yet to issue
  their \<^verbatim>\<open>SADD\<close> (l.114).
\<close>

fun join_of :: "task \<Rightarrow> (conn \<times> meta) option" where
  "join_of (Conn_subscribe ws m r) = Some (ws, m)"
| "join_of (Conn_ensured ws m) = Some (ws, m)"
| "join_of (Conn_sadd ws m r) = Some (ws, m)"
| "join_of (Conn_smembers ws m r) = Some (ws, m)"
| "join_of (Conn_publish ws m r) = Some (ws, m)"
| "join_of (Conn_added ws m) = Some (ws, m)"
| "join_of (Conn_current ws m r) = Some (ws, m)"
| "join_of t = None"

fun before_sadd :: "task \<Rightarrow> bool" where
  "before_sadd (Conn_subscribe ws m r) = True"
| "before_sadd (Conn_ensured ws m) = True"
| "before_sadd t = False"

fun join_entry :: "pid \<times> task \<Rightarrow> (pid \<times> conn \<times> string \<times> string) list" where
  "join_entry (p, t) =
     (case join_of t of None \<Rightarrow> [] | Some (ws, m) \<Rightarrow> [(p, ws, m_room m, m_username m)])"

definition joins :: "world \<Rightarrow> (pid \<times> conn \<times> string \<times> string) list" where
  "joins w = concat (map join_entry (pending w))"

definition unadded :: "world \<Rightarrow> (pid \<times> conn \<times> string \<times> string) list" where
  "unadded w = concat (map join_entry (filter (\<lambda>(p, t). before_sadd t) (pending w)))"

definition sock :: "pid \<times> conn \<times> string \<times> string \<Rightarrow> pid \<times> conn" where
  "sock x = (fst x, fst (snd x))"


text \<open>
  A run is orderly when Redis answers every command, no identity ever holds two open
  sessions in a room, no socket closes while its connection handler is suspended, and the
  bus delivers JSON objects (a payload that does not parse, or \<^verbatim>\<open>null\<close>, throws out of
  \<^verbatim>\<open>sub.on("message")\<close>).
\<close>

definition redis_up :: "env \<Rightarrow> bool" where
  "redis_up e \<longleftrightarrow> cli_up e \<and> pub_up e \<and> sub_up e"




subsection \<open>Invariants of the world\<close>


definition registries_ok :: "world \<Rightarrow> bool" where
  "registries_ok w \<longleftrightarrow> (\<forall>p. distinct (map fst (g_clients (gateways w p))))"



definition state_of :: "world \<Rightarrow> pid \<times> conn \<Rightarrow> ready_state" where
  "state_of w x = g_readyState (gateways w (fst x)) (snd x)"

definition handlers_of :: "world \<Rightarrow> pid \<times> conn \<Rightarrow> (string \<times> string) option" where
  "handlers_of w x = g_listeners (gateways w (fst x)) (snd x)"



section \<open>Concrete inputs\<close>


definition demo_verify :: "string \<Rightarrow> string option" where
  "demo_verify token =
     (if token = ''t-alice'' then Some ''alice''
      else if token = ''t-bob'' then Some ''bob'' else None)"

definition demo_env :: env where
  "demo_env = \<lparr> cli_up = True, pub_up = True, sub_up = True, db_accepts = (\<lambda>d. True),
                jwt_verify = demo_verify, uuid = ''u1'', now = 1000 \<rparr>"

definition later_env :: env where
  "later_env = demo_env\<lparr>uuid := ''u2'', now := 2000\<rparr>"

definition db_down :: env where
  "db_down = later_env\<lparr>db_accepts := (\<lambda>d. False)\<rparr>"

definition store_down :: env where
  "store_down = demo_env\<lparr>cli_up := False\<rparr>"

definition join_request :: "string \<Rightarrow> string \<Rightarrow> request" where
  "join_request token room = \<lparr> url_parses = True, q_token = Some token, q_room = Some room \<rparr>"

definition hi_frame :: json where
  "hi_frame = JObj [(''type'', JStr ''message''), (''text'', JStr ''hi''),
                    (''messageType'', JStr ''text'')]"

definition bare_frame :: json where
  "bare_frame = JObj [(''type'', JStr ''message''), (''text'', JStr ''hi'')]"

definition ping_frame :: json where
  "ping_frame = JObj [(''type'', JStr ''ping'')]"

definition typing_frame :: json where
  "typing_frame = JObj [(''type'', JStr ''typing'')]"

text \<open>The initial state with socket 1 open, and with \<open>alice\<close> a member of room \<open>dev\<close>.\<close>

definition open_one :: server where
  "open_one = init\<lparr>readyState := (readyState init)(1 := OPEN)\<rparr>"

definition alice_in_dev :: server where
  "alice_in_dev = init\<lparr>redis_sets := (redis_sets init)(''room:dev:users'' := [''alice''])\<rparr>"

definition hi_event :: json where
  "hi_event = JObj [(''id'', JStr ''u3''), (''type'', JStr ''message''),
                    (''messageType'', JStr ''text''), (''room'', JStr ''dev''),
                    (''user'', JStr ''alice''), (''text'', JStr ''hi''), (''ts'', JNum 3000)]"

definition two_in_dev :: server where
  "two_in_dev = snd (step (Connection later_env 2 (join_request ''t-bob'' ''dev''))
                  (snd (step (Connection demo_env 1 (join_request ''t-alice'' ''dev'')) init)))"

definition three_sockets :: server where
  "three_sockets = snd (step (Connection later_env 3 (join_request ''t-bob'' ''ops'')) two_in_dev)"

text \<open>Runs of several gateways, with the order in which suspended handlers are resumed.\<close>

definition connect :: "pid \<Rightarrow> env \<Rightarrow> conn \<Rightarrow> string \<Rightarrow> string \<Rightarrow> occurrence" where
  "connect p e ws token room = Arrive p (Connection e ws (join_request token room))"




definition close_while_joining :: "occurrence list" where
  "close_while_joining =
     [connect 0 demo_env 1 ''t-alice'' ''dev'', Arrive 0 (Close demo_env 1)]
     @ replicate 7 (Resume 0 demo_env)"


section \<open>Properties\<close>

lemmas io_defs = io_unit_def io_throw_def io_bind_def io_of_def try_catch_def

lemmas lib_defs = console_error_def ws_send_def ws_close_def cli_sadd_def cli_srem_def
  cli_smembers_def pub_publish_def sub_subscribe_def Message_create_def

lemmas helper_defs = redisRoomChannel_def redisRoomUsersKey_def ensureSubscribed_def
  subscribedRooms_add_def presence_update_def addUserToRoom_def removeUserFromRoom_def
  clients_set_def clients_delete_def attach_listeners_def error_frame_def welcome_frame_def
  reject_def

lemmas handler_defs = init_def on_connection_def on_message_def on_close_def sub_on_message_def
  is_signal_def signal_def chat_doc_def chatMessage_def pong_def js_or_def Let_def

lemmas demo_defs = demo_verify_def demo_env_def db_down_def later_env_def store_down_def
  join_request_def hi_frame_def bare_frame_def ping_frame_def typing_frame_def
  open_one_def alice_in_dev_def

text \<open>A value with a defined property is an object.\<close>

lemma parsed_objE:
  assumes "get_prop parsed k = Inr (Some v)"
  obtains kvs where "parsed = JObj kvs" and "map_of kvs k = Some v"
  using assms by (cases parsed) auto

lemma users_key_inj: "redisRoomUsersKey r = redisRoomUsersKey r' \<longleftrightarrow> r = r'"
  by (simp add: redisRoomUsersKey_def)

subsection \<open>Chat messages and persistence\<close>

text \<open>
  C1, as the code has it: for every inbound event of kind \<open>message\<close> from a joined session, the
  chat message (with the server-assigned id and timestamp, the sender's identity and the room)
  is published to the room's channel only after the history append has succeeded. When the
  append rejects, the failure is logged and nothing is published; when the append succeeds
  and the publish fails, the document stays stored and the failure is logged.
\<close>

theorem message_publish_follows_persistence:
  assumes "get_prop parsed ''type'' = Inr (Some (JStr ''message''))"
  shows "on_message e ws room username (Some parsed) s =
     (Inr (),
      let messageType = map_of (own_props parsed) ''messageType'';
          text = map_of (own_props parsed) ''text'';
          d = chat_doc e room username messageType text
      in if db_accepts e d
         then if pub_up e
              then s\<lparr>bus := bus s @ [(redisRoomChannel room,
                                        chatMessage e room username messageType text)],
                     history := history s @ [d]\<rparr>
              else s\<lparr>history := history s @ [d], console := console s @ [''message error:'']\<rparr>
         else s\<lparr>console := console s @ [''message error:'']\<rparr>)"
  using assms
  by (elim parsed_objE) (simp add: on_message_def io_defs lib_defs is_signal_def Let_def)

text \<open>With the history store rejecting, the handler only logs.\<close>

theorem message_publish_follows_persistence_witness:
  "get_prop hi_frame ''type'' = Inr (Some (JStr ''message''))
   \<and> on_message db_down 1 ''dev'' ''alice'' (Some hi_frame) init =
       (Inr (), init\<lparr>console := [''message error:'']\<rparr>)"
proof -
  have h: "get_prop hi_frame ''type'' = Inr (Some (JStr ''message''))"
    by (simp add: hi_frame_def)
  show ?thesis
    using h message_publish_follows_persistence [OF h, of db_down 1 "''dev''" "''alice''" init]
    by (simp add: db_down_def later_env_def demo_env_def init_def)
qed

text \<open>
  C1 as stated fails: \<open>alice\<close> joins \<open>dev\<close> and sends a chat message while the history store
  rejects. The only payload ever published on the channel is the presence update of her
  join; the chat message is not published.
\<close>

theorem persistence_failure_blocks_publish:
  "map_sum id bus (run [Connection demo_env 1 (join_request ''t-alice'' ''dev''),
                        Frame db_down 1 (Some hi_frame)] init)
   = Inr [(''room:dev:channel'', presence_update ''dev'' [''alice''])]"
  by (simp add: handler_defs io_defs lib_defs helper_defs demo_defs)

subsection \<open>Malformed frames\<close>

text \<open>
  C2, as the code has it: a frame that does not parse as JSON is dropped. Nothing is
  published, persisted or sent, the failure is logged, and the socket, its handlers and its
  registration stay as they were, so later frames are handled as usual. A \<open>message\<close> frame
  without \<open>messageType\<close> is not dropped: it is handled exactly as the same frame carrying
  \<open>messageType\<close> \<open>text\<close>.
\<close>

theorem malformed_frames:
  "on_message e ws room username None s =
     (Inr (), s\<lparr>console := console s @ [''message error:'']\<rparr>)
   \<and> (map_of kvs ''type'' = Some (JStr ''message'') \<and> map_of kvs ''messageType'' = None \<longrightarrow>
        on_message e ws room username (Some (JObj kvs)) s =
        on_message e ws room username (Some (JObj (kvs @ [(''messageType'', JStr ''text'')]))) s)"
  by (auto simp add: on_message_def io_defs console_error_def is_signal_def js_or_def
        chat_doc_def chatMessage_def map_add_def split: option.splits)

theorem malformed_frames_witness:
  "on_message demo_env 1 ''dev'' ''alice'' None init =
     (Inr (), init\<lparr>console := [''message error:'']\<rparr>)
   \<and> map_of [(''type'', JStr ''message''), (''text'', JStr ''hi'')] ''type'' = Some (JStr ''message'')
   \<and> map_of [(''type'', JStr ''message''), (''text'', JStr ''hi'')] ''messageType'' = None
   \<and> on_message demo_env 1 ''dev'' ''alice'' (Some bare_frame) init =
       on_message demo_env 1 ''dev'' ''alice'' (Some hi_frame) init"
  using malformed_frames [of demo_env 1 "''dev''" "''alice''" init
          "[(''type'', JStr ''message''), (''text'', JStr ''hi'')]"]
  by (simp add: init_def bare_frame_def hi_frame_def)

text \<open>
  C2 as stated fails: \<open>alice\<close> joins \<open>dev\<close> and sends a \<open>message\<close> frame without
  \<open>messageType\<close>. The chat message is published, with \<open>messageType\<close> \<open>text\<close>.
\<close>

theorem missing_messageType_is_published:
  "map_sum id bus (run [Connection demo_env 1 (join_request ''t-alice'' ''dev''),
                        Frame later_env 1 (Some bare_frame)] init)
   = Inr [(''room:dev:channel'', presence_update ''dev'' [''alice'']),
          (''room:dev:channel'',
           JObj [(''id'', JStr ''u2''), (''type'', JStr ''message''),
                 (''messageType'', JStr ''text''), (''room'', JStr ''dev''),
                 (''user'', JStr ''alice''), (''text'', JStr ''hi''), (''ts'', JNum 2000)])]"
  by (simp add: handler_defs io_defs lib_defs helper_defs demo_defs)

subsection \<open>A join that fails\<close>

text \<open>
  The authentication failures answer with an error frame and close the socket.
\<close>

lemma auth_failure_closes:
  assumes "url_parses req" and "q_token req = None" and "readyState s ws = OPEN"
  shows "on_connection e ws req s =
           (Inr (), s\<lparr>sent := sent s @ [(ws, error_frame ''Token missing'')],
                      readyState := (readyState s)(ws := CLOSING)\<rparr>)"
  using assms by (simp add: on_connection_def io_defs reject_def ws_send_def ws_close_def)

text \<open>
  A join that fails on the Presence Store, in any state: the session is registered, nothing
  is sent, the socket and its (missing) handlers are as before, and a line is logged.
\<close>

lemma join_failure_registers:
  assumes "url_parses req" and "q_token req = Some token" and "token \<noteq> []"
    and "jwt_verify e token = Some username" and "\<not> cli_up e"
  shows "ws \<in> fst ` set (clients (snd (on_connection e ws req s)))
         \<and> fst (on_connection e ws req s) = Inr ()
         \<and> sent (snd (on_connection e ws req s)) = sent s
         \<and> readyState (snd (on_connection e ws req s)) = readyState s
         \<and> listeners (snd (on_connection e ws req s)) = listeners s
         \<and> redis_sets (snd (on_connection e ws req s)) = redis_sets s
         \<and> console (snd (on_connection e ws req s)) = console s @ [''WS connection error:'']"
  using assms
  by (simp add: on_connection_def io_defs lib_defs ensureSubscribed_def subscribedRooms_add_def
        addUserToRoom_def clients_set_def Let_def dom_update)

text \<open>
  C4 asks that a join failing on the Presence Store closes the session after an error event.
  The code at that input: \<open>alice\<close> connects to \<open>dev\<close> with a valid token while \<^verbatim>\<open>cli\<close> does
  not answer. The session is registered in \<open>clients\<close> and stays there, the socket stays open,
  no frame is sent, no handler is attached (so the entry is never removed), and the failure
  is only logged.
\<close>

theorem join_failure_leaves_session_registered:
  "step (Connection store_down 1 (join_request ''t-alice'' ''dev'')) init =
     (Inr (), init\<lparr>clients := [(1, \<lparr>m_id = ''u1'', m_room = ''dev'', m_username = ''alice''\<rparr>)],
                    subscribedRooms := {''room:dev:channel''},
                    sub_channels := [''room:dev:channel''],
                    readyState := (readyState init)(1 := OPEN),
                    console := [''WS connection error:'']\<rparr>)"
  by (simp add: handler_defs io_defs lib_defs helper_defs demo_defs)

subsection \<open>Fan-out\<close>

lemma forward_sends:
  "forward msg room cs s =
     (Inr (), s\<lparr>sent := sent s @ map (\<lambda>(ws, m). (ws, msg))
        (filter (\<lambda>(ws, m). room = Some (JStr (m_room m)) \<and> readyState s ws = OPEN) cs)\<rparr>)"
proof (induction cs arbitrary: room s)
  case Nil
  show ?case by (simp add: io_unit_def)
next
  case (Cons c cs)
  obtain ws m where c: "c = (ws, m)" by (cases c)
  show ?case
    by (simp add: c io_bind_def ws_send_def Cons.IH)
qed

text \<open>
  C5: for every event received from the bus, the fan-out hands the event itself, unchanged,
  to every registered connection whose session's room is the event's room and whose socket
  is open, in registration order, and to no other connection; nothing else changes, so
  nothing is published back to the bus.
\<close>

theorem fanout_exact:
  "sub_on_message (Some (JObj kvs)) s =
     (Inr (), s\<lparr>sent := sent s @ map (\<lambda>(ws, m). (ws, JObj kvs))
        (filter (\<lambda>(ws, m). map_of kvs ''room'' = Some (JStr (m_room m)) \<and> readyState s ws = OPEN)
           (clients s))\<rparr>)"
  by (simp add: sub_on_message_def io_defs forward_sends)

text \<open>
  \<open>alice\<close> and \<open>bob\<close> are in \<open>dev\<close>, a third socket is in \<open>ops\<close>: a chat message for
  \<open>dev\<close> goes to the first two sockets and not to the third.
\<close>

theorem fanout_exact_witness:
  "sub_on_message (Some hi_event) three_sockets =
     (Inr (), three_sockets\<lparr>sent := sent three_sockets @ [(1, hi_event), (2, hi_event)]\<rparr>)"
proof -
  have c: "clients three_sockets =
             [(1, \<lparr>m_id = ''u1'', m_room = ''dev'', m_username = ''alice''\<rparr>),
              (2, \<lparr>m_id = ''u2'', m_room = ''dev'', m_username = ''bob''\<rparr>),
              (3, \<lparr>m_id = ''u2'', m_room = ''ops'', m_username = ''bob''\<rparr>)]"
    and r: "readyState three_sockets (Suc 0) = OPEN" "readyState three_sockets 2 = OPEN"
    by (simp_all add: three_sockets_def two_in_dev_def handler_defs io_defs lib_defs helper_defs
          demo_defs)
  show ?thesis
    using fanout_exact [of "[(''id'', JStr ''u3''), (''type'', JStr ''message''),
                    (''messageType'', JStr ''text''), (''room'', JStr ''dev''),
                    (''user'', JStr ''alice''), (''text'', JStr ''hi''), (''ts'', JNum 3000)]"
                three_sockets]
    by (simp add: hi_event_def c r)
qed

subsection \<open>Ping and unknown kinds\<close>



text \<open>
  C10: for every inbound frame that parses and whose \<open>type\<close> is none of the three signalling
  kinds, \<open>message\<close> or \<open>ping\<close>, the handler changes nothing: no frame sent, nothing published,
  nothing persisted, registry and membership as before. (The one value that leaves a trace
  is JSON \<open>null\<close>, whose \<open>type\<close> cannot be read: a line on the console.)
\<close>

theorem unknown_type_ignored:
  assumes "\<forall>k \<in> {''webrtc-offer'', ''webrtc-answer'', ''webrtc-ice'', ''message'', ''ping''}.
             get_prop parsed ''type'' \<noteq> Inr (Some (JStr k))"
  shows "on_message e ws room username (Some parsed) s =
           (Inr (), if parsed = JNull then s\<lparr>console := console s @ [''message error:'']\<rparr>
                    else s)"
  using assms
  by (cases parsed) (simp_all add: on_message_def io_defs is_signal_def console_error_def)

theorem unknown_type_ignored_witness:
  "get_prop typing_frame ''type'' = Inr (Some (JStr ''typing''))
   \<and> on_message demo_env 1 ''dev'' ''alice'' (Some typing_frame) open_one = (Inr (), open_one)"
proof -
  have h: "\<forall>k \<in> {''webrtc-offer'', ''webrtc-answer'', ''webrtc-ice'', ''message'', ''ping''}.
             get_prop typing_frame ''type'' \<noteq> Inr (Some (JStr k))"
    by (simp add: typing_frame_def)
  show ?thesis
    using unknown_type_ignored [OF h, of demo_env 1 "''dev''" "''alice''" open_one]
    by (simp add: typing_frame_def)
qed

subsection \<open>Presence Store: join and leave\<close>

text \<open>
  C7: with the store answering, joining an identity that is already a member, and leaving
  with an identity that is not a member, both succeed and leave every membership set as it
  was; a join after a join changes nothing.
\<close>

theorem join_leave_idempotent:
  assumes "cli_up e" and "pub_up e"
  shows "(username \<in> members s room \<longrightarrow>
            fst (addUserToRoom e room username s) = Inr () \<and>
            redis_sets (snd (addUserToRoom e room username s)) = redis_sets s)
       \<and> (username \<notin> members s room \<longrightarrow>
            fst (removeUserFromRoom e room username s) = Inr () \<and>
            redis_sets (snd (removeUserFromRoom e room username s)) = redis_sets s)
       \<and> redis_sets (snd (addUserToRoom e room username (snd (addUserToRoom e room username s))))
           = redis_sets (snd (addUserToRoom e room username s))"
  using assms
  by (simp add: members_def addUserToRoom_def removeUserFromRoom_def io_defs lib_defs)

theorem join_leave_idempotent_witness:
  "cli_up demo_env \<and> pub_up demo_env
   \<and> ''alice'' \<in> members alice_in_dev ''dev''
   \<and> fst (addUserToRoom demo_env ''dev'' ''alice'' alice_in_dev) = Inr ()
   \<and> redis_sets (snd (addUserToRoom demo_env ''dev'' ''alice'' alice_in_dev)) = redis_sets alice_in_dev
   \<and> ''bob'' \<notin> members alice_in_dev ''dev''
   \<and> fst (removeUserFromRoom demo_env ''dev'' ''bob'' alice_in_dev) = Inr ()
   \<and> redis_sets (snd (removeUserFromRoom demo_env ''dev'' ''bob'' alice_in_dev))
       = redis_sets alice_in_dev"
proof -
  have up: "cli_up demo_env" "pub_up demo_env"
    by (simp_all add: demo_env_def)
  have a: "''alice'' \<in> members alice_in_dev ''dev''" and b: "''bob'' \<notin> members alice_in_dev ''dev''"
    by (simp_all add: members_def alice_in_dev_def redisRoomUsersKey_def)
  show ?thesis
    using up a b
      join_leave_idempotent [OF up, of "''alice''" alice_in_dev "''dev''"]
      join_leave_idempotent [OF up, of "''bob''" alice_in_dev "''dev''"]
    by blast
qed

text \<open>
  C6, as the code has it: with the store answering, a join followed by a leave of the same
  identity leaves the room's membership set without that identity. For an identity that was
  not a member before the join this restores every membership set exactly.
\<close>

theorem join_then_leave:
  assumes "cli_up e1" and "cli_up e2"
  shows "members (snd (removeUserFromRoom e2 room username
                         (snd (addUserToRoom e1 room username s)))) room
           = members s room - {username}
       \<and> (username \<notin> members s room \<longrightarrow>
            (\<forall>room'. members (snd (removeUserFromRoom e2 room username
                                      (snd (addUserToRoom e1 room username s)))) room'
                      = members s room'))"
  using assms
  by (auto simp add: members_def addUserToRoom_def removeUserFromRoom_def io_defs lib_defs
        users_key_inj)

theorem join_then_leave_witness:
  "cli_up demo_env \<and> ''bob'' \<notin> members alice_in_dev ''dev''
   \<and> members (snd (removeUserFromRoom demo_env ''dev'' ''bob''
                     (snd (addUserToRoom demo_env ''dev'' ''bob'' alice_in_dev)))) ''dev''
       = members alice_in_dev ''dev''"
proof -
  have up: "cli_up demo_env"
    by (simp add: demo_env_def)
  have b: "''bob'' \<notin> members alice_in_dev ''dev''"
    by (simp add: members_def alice_in_dev_def redisRoomUsersKey_def)
  show ?thesis
    using up b join_then_leave [OF up up, of "''dev''" "''bob''" alice_in_dev]
    by blast
qed

text \<open>
  C6 as stated fails for an identity that is already a member: \<open>alice\<close> is in \<open>dev\<close>; a join
  of \<open>alice\<close> followed by a leave of \<open>alice\<close> does not give back the set \<open>{alice}\<close>.
\<close>

theorem rejoin_then_leave_drops_member:
  "members (snd (removeUserFromRoom demo_env ''dev'' ''alice''
                  (snd (addUserToRoom demo_env ''dev'' ''alice'' alice_in_dev)))) ''dev''
   \<noteq> members alice_in_dev ''dev''"
  by (simp add: members_def addUserToRoom_def removeUserFromRoom_def io_defs lib_defs
        demo_defs init_def redisRoomUsersKey_def)


section \<open>Runs with handlers suspended at their awaits\<close>

lemmas seg_defs = suspend_def finish_def connection_catch_def message_catch_def

lemmas world_defs = connect_def init_world_def run_at_def view_def put_def credential_def
  connection_begin_def close_begin_def message_begin_def eval_nat_numeral

subsection \<open>A handler that nothing interleaves with\<close>

text \<open>
  \<open>step\<close> is the handler of an event with all its segments run in a row (seven resumptions
  are enough for the longest handler, the connection handler of the first socket of a room).
\<close>

lemma undisturbed_frame:
  "step (Frame e ws data) = undisturbed 7 e (arrive (Frame e ws data))"
  by (rule ext)
     (simp add: eval_nat_numeral message_begin_def on_message_def seg_defs io_defs lib_defs
        try_catch_def Let_def split: option.splits sum.splits prod.splits)

lemma undisturbed_close:
  "step (Close e ws) = undisturbed 7 e (arrive (Close e ws))"
  by (rule ext)
     (simp add: eval_nat_numeral close_begin_def on_close_def removeUserFromRoom_def
        clients_delete_def seg_defs io_defs lib_defs split: option.splits sum.splits prod.splits)

lemma undisturbed_delivery:
  "step (Delivery message) = undisturbed 7 e (arrive (Delivery message))"
  by (rule ext)
     (simp add: eval_nat_numeral seg_defs io_defs split: option.splits sum.splits prod.splits)

lemma undisturbed_connection:
  "step (Connection e ws req) = undisturbed 7 e (arrive (Connection e ws req))"
  by (rule ext)
     (simp add: eval_nat_numeral connection_begin_def on_connection_def ensureSubscribed_def
        addUserToRoom_def subscribedRooms_add_def clients_set_def attach_listeners_def
        reject_def seg_defs io_defs lib_defs Let_def
        split: option.splits sum.splits prod.splits)

subsection \<open>The registry of every process keeps one entry per socket\<close>

lemma view_put [simp]: "view p (put p s w) = s"
  by (simp add: view_def put_def)

lemma put_fields [simp]:
  "pending (put p s w) = pending w"
  "sessions (put p s w) = sessions w"
  "w_redis_sets (put p s w) = redis_sets s"
  "g_clients (gateways (put p s w) q) = (if q = p then clients s else g_clients (gateways w q))"
  "g_sub_channels (gateways (put p s w) q) =
     (if q = p then sub_channels s else g_sub_channels (gateways w q))"
  "g_readyState (gateways (put p s w) q) =
     (if q = p then readyState s else g_readyState (gateways w q))"
  "g_listeners (gateways (put p s w) q) =
     (if q = p then listeners s else g_listeners (gateways w q))"
  by (simp_all add: put_def)

lemma view_fields [simp]:
  "clients (view p w) = g_clients (gateways w p)"
  "sub_channels (view p w) = g_sub_channels (gateways w p)"
  "readyState (view p w) = g_readyState (gateways w p)"
  "listeners (view p w) = g_listeners (gateways w p)"
  "redis_sets (view p w) = w_redis_sets w"
  "sent (view p w) = g_sent (gateways w p)"
  by (simp_all add: view_def)

lemma view_ghost [simp]:
  "view p (w\<lparr>pending := ts\<rparr>) = view p w"
  "view p (w\<lparr>sessions := ss\<rparr>) = view p w"
  by (simp_all add: view_def)

lemma view_note_session [simp]: "view q (note_session p ev w) = view q w"
  by (cases ev) (auto split: option.splits)











lemma preserves_state_if:
  assumes "preserves P a" and "preserves P b"
  shows "preserves P (\<lambda>s. if c s then a s else b s)"
  using assms by (simp add: preserves_def)













lemma registries_ghost [simp]:
  "registries_ok (w\<lparr>pending := ts\<rparr>) = registries_ok w"
  "registries_ok (note_session p ev w) = registries_ok w"
  by (cases ev; auto simp add: registries_ok_def split: option.splits)+




subsection \<open>Segments with Redis answering\<close>






subsection \<open>First segments with Redis answering\<close>






subsection \<open>The parts of the world the invariant reads\<close>

lemma state_of_put [simp]:
  "state_of (put p s w) y = (if fst y = p then readyState s (snd y) else state_of w y)"
  by (simp add: state_of_def)

lemma handlers_of_put [simp]:
  "handlers_of (put p s w) y = (if fst y = p then listeners s (snd y) else handlers_of w y)"
  by (simp add: handlers_of_def)

lemma ghost_fields [simp]:
  "state_of (w\<lparr>pending := ts\<rparr>) = state_of w"
  "handlers_of (w\<lparr>pending := ts\<rparr>) = handlers_of w"
  "state_of (w\<lparr>sessions := ss\<rparr>) = state_of w"
  "handlers_of (w\<lparr>sessions := ss\<rparr>) = handlers_of w"
  by (simp_all add: state_of_def handlers_of_def fun_eq_iff)






lemma joins_split:
  assumes "pending w = A @ (p, t) # B"
  shows "joins w = concat (map join_entry A) @ join_entry (p, t) @ concat (map join_entry B)"
  using assms by (simp add: joins_def)

lemma unadded_split:
  assumes "pending w = A @ (p, t) # B"
  shows "unadded w = concat (map join_entry (filter (\<lambda>(p, t). before_sadd t) A))
           @ (if before_sadd t then join_entry (p, t) else [])
           @ concat (map join_entry (filter (\<lambda>(p, t). before_sadd t) B))"
  using assms by (simp add: unadded_def)


subsection \<open>The invariant, taken apart and put together\<close>











subsection \<open>The steps that keep the invariant\<close>











subsection \<open>Every occurrence of an orderly run keeps the invariant\<close>

lemma gateway_eta:
  "\<lparr>g_clients = g_clients g, g_subscribedRooms = g_subscribedRooms g,
    g_sub_channels = g_sub_channels g, g_readyState = g_readyState g, g_sent = g_sent g,
    g_listeners = g_listeners g, g_console = g_console g\<rparr> = g"
  by (cases g) simp

lemma put_view [simp]: "put p (view p w) w = w"
  by (simp add: put_def view_def gateway_eta)













subsection \<open>Membership and open sessions\<close>

lemmas session_defs = single_session_def open_sessions_def open_identities_def w_members_def
  membership_and_sessions_def joins_def unadded_def redis_up_def sock_def





text \<open>
  Why an orderly run has no socket closing while its connection handler is suspended: the
  close handler is attached last (l.249), so such a close runs no handler. The connection
  handler then goes on to add the identity, and nothing removes it or its registry entry
  afterwards.
\<close>

lemma close_during_join_leaves_member:
  "map_sum id (\<lambda>w. (membership_and_sessions ''dev'' w, map fst (g_clients (gateways w 0))))
     (run_world close_while_joining init_world)
   = Inr (({''alice''}, {}), [1])"
  by (simp add: close_while_joining_def world_defs session_defs seg_defs handler_defs
        io_defs lib_defs helper_defs demo_defs)

subsection \<open>Subscribing once\<close>










end
